theory Spec2Isabelle
  imports Main
begin

section \<open>JavaScript values\<close>

text \<open>
  The values that flow through \<^verbatim>\<open>src/Models/Worker.js\<close>. \<open>JNum n\<close> is the number
  whose value is the integer \<open>n\<close>. A function value is a reference: \<open>UserFn r\<close> is the
  function object at address \<open>r\<close>, \<open>DefaultIsJobRunnable\<close> is the arrow function that
  \<^verbatim>\<open>addWorker\<close> builds on line 39. \<open>JError name message\<close> is an error object that
  code has built, \<open>JTypeError\<close> is a \<^verbatim>\<open>TypeError\<close> that the engine itself raises:
  the wording of its message is the engine's own and is not part of the value.

  A promise is described by when and how it settles. Instants are milliseconds on the
  timer clock, counted from the call under study; of two settlements at the same instant
  the one that was armed first goes first.
\<close>

datatype 'a settlement = Never | Fulfils nat 'a | Rejects nat 'a

datatype fnid = UserFn nat | DefaultIsJobRunnable

datatype jsval =
    JUndefined
  | JNull
  | JBool bool
  | JNum int
  | JNaN
  | JStr string
  | JArr "jsval list"
  | JObj "(string \<times> jsval) list"
  | JFun fnid
  | JError string string
  | JTypeError
  | JPromise "jsval settlement"

text \<open>A call or a property read either throws (\<open>Inl\<close>, the thrown value) or returns (\<open>Inr\<close>).\<close>

type_synonym completion = "jsval + jsval"

text \<open>\<^verbatim>\<open>!v\<close> is \<open>\<not> truthy v\<close>; \<^verbatim>\<open>a || b\<close> is \<open>js_or a b\<close>.\<close>

fun truthy :: "jsval \<Rightarrow> bool" where
  "truthy JUndefined = False"
| "truthy JNull = False"
| "truthy (JBool b) = b"
| "truthy (JNum n) = (n \<noteq> 0)"
| "truthy JNaN = False"
| "truthy (JStr s) = (s \<noteq> [])"
| "truthy _ = True"

definition js_or :: "jsval \<Rightarrow> jsval \<Rightarrow> jsval" where
  "js_or a b = (if truthy a then a else b)"

fun is_function :: "jsval \<Rightarrow> bool" where
  "is_function (JFun f) = True"
| "is_function _ = False"

text \<open>Reading a property of an object literal; an absent key reads as \<^verbatim>\<open>undefined\<close>.\<close>

definition get_prop :: "(string \<times> jsval) list \<Rightarrow> string \<Rightarrow> jsval" where
  "get_prop kvs k = (case map_of kvs k of None \<Rightarrow> JUndefined | Some v \<Rightarrow> v)"

subsection \<open>Integers in decimal\<close>

definition digit_char :: "nat \<Rightarrow> char" where
  "digit_char d = ''0123456789'' ! d"

fun dec_nat :: "nat \<Rightarrow> string" where
  "dec_nat n = (if n < 10 then [digit_char n] else dec_nat (n div 10) @ [digit_char (n mod 10)])"

declare dec_nat.simps [simp del]

definition dec_int :: "int \<Rightarrow> string" where
  "dec_int i = (if i < 0 then CHR ''-'' # dec_nat (nat (- i)) else dec_nat (nat i))"

section \<open>The registry and the function objects\<close>

text \<open>
  \<open>workers\<close> is what \<^verbatim>\<open>addWorker\<close> has put on the static \<^verbatim>\<open>Worker.workers\<close>: job name
  to worker function object. The entry under the name \<^verbatim>\<open>__proto__\<close> is the prototype
  of that object, which is what an assignment to this name sets and what a read of it
  gives; it is no property of its own, so \<^verbatim>\<open>delete\<close> leaves it.
  \<open>fn_options\<close> is the \<^verbatim>\<open>options\<close> property of each function object, \<open>None\<close>
  while the property has never been set; it lives on the function, not in the registry.
  \<open>console\<close> holds what \<^verbatim>\<open>console.error\<close> was given, oldest first. \<open>invoked\<close> records
  every call the class makes to a function value, with its arguments, oldest first.
\<close>

record world =
  workers :: "string \<rightharpoonup> nat"
  fn_options :: "nat \<rightharpoonup> (string \<times> jsval) list"
  console :: "jsval list"
  invoked :: "(jsval \<times> jsval list) list"

definition init_world :: world where
  "init_world = \<lparr>workers = Map.empty, fn_options = Map.empty, console = [], invoked = []\<rparr>"

section \<open>The host\<close>

text \<open>
  What the class uses and the repository does not contain.
  \<^item> \<open>fn_body r args\<close>: what a call of the function object at \<open>r\<close> with arguments
    \<open>args\<close> does when the class calls it: throw, or return a value, which for an
    asynchronous function is a promise. The bodies are taken not to touch the registry.
  \<^item> \<open>JSON_parse\<close>: \<open>Inl\<close> the \<^verbatim>\<open>SyntaxError\<close> it throws, \<open>Inr\<close> the decoded value.
  \<^item> \<open>parseInt\<close>: the global function of that name.
  \<^item> \<open>follow_then kvs\<close>: how a promise settles that has been resolved with the object
    \<open>kvs\<close> whose \<^verbatim>\<open>then\<close> is a function; what that function does with the two functions
    it is handed is its own business.
  \<^item> \<open>big_number_text n\<close>: \<^verbatim>\<open>String(n)\<close> for a number beyond the safe integers, which
    is not the decimal expansion of \<open>n\<close>.
  \<^item> \<open>inherited s name\<close>: what a read of \<^verbatim>\<open>Worker.workers[name]\<close> finds when \<open>name\<close>
    is not an entry: the member of that name on the prototype chain (for a registry
    that still has its first prototype, the members of \<^verbatim>\<open>Object.prototype\<close>), or
    \<^verbatim>\<open>undefined\<close>. An accessor found there can throw.
\<close>

record host =
  fn_body :: "nat \<Rightarrow> jsval list \<Rightarrow> completion"
  JSON_parse :: "string \<Rightarrow> completion"
  parseInt :: "jsval \<Rightarrow> jsval"
  follow_then :: "(string \<times> jsval) list \<Rightarrow> jsval settlement"
  big_number_text :: "int \<Rightarrow> string"
  inherited :: "world \<Rightarrow> string \<Rightarrow> completion"

text \<open>\<^verbatim>\<open>Worker.workers[jobName]\<close>.\<close>

definition worker_at :: "host \<Rightarrow> world \<Rightarrow> string \<Rightarrow> completion" where
  "worker_at h s jobName =
     (case workers s jobName of
        Some w \<Rightarrow> Inr (JFun (UserFn w))
      | None \<Rightarrow> inherited h s jobName)"

text \<open>
  \<^verbatim>\<open>v.k\<close> and \<^verbatim>\<open>v[k]\<close> for the names the class reads: \<^verbatim>\<open>options\<close> and the ten
  names of a policy, none of which a built-in prototype defines. A function object has
  the \<^verbatim>\<open>options\<close> that \<^verbatim>\<open>addWorker\<close> gave it; reading from \<^verbatim>\<open>undefined\<close> or
  \<^verbatim>\<open>null\<close> throws.
\<close>

fun js_get :: "world \<Rightarrow> jsval \<Rightarrow> string \<Rightarrow> completion" where
  "js_get s JUndefined k = Inl JTypeError"
| "js_get s JNull k = Inl JTypeError"
| "js_get s (JObj kvs) k = Inr (get_prop kvs k)"
| "js_get s (JFun (UserFn w)) k =
     (if k = ''options''
      then (case fn_options s w of None \<Rightarrow> Inr JUndefined | Some kvs \<Rightarrow> Inr (JObj kvs))
      else Inr JUndefined)"
| "js_get s v k = Inr JUndefined"

definition missing_args_error :: jsval where
  "missing_args_error =
     JError ''Error'' ''Job name and associated worker function must be supplied.''"

definition no_worker_error :: "string \<Rightarrow> jsval" where
  "no_worker_error jobName =
     JError ''Error'' (''Job '' @ jobName @ '' does not have a worker assigned to it.'')"

definition defaultIsJobRunnable :: jsval where
  "defaultIsJobRunnable = JFun DefaultIsJobRunnable"

text \<open>
  Lines 42 to 53: the object literal assigned to \<^verbatim>\<open>worker.options\<close>, in the order
  of the source.
\<close>

definition resolve_options :: "(string \<times> jsval) list \<Rightarrow> (string \<times> jsval) list" where
  "resolve_options options =
     [(''concurrency'', js_or (get_prop options ''concurrency'') (JNum 1)),
      (''isJobRunnable'', js_or (get_prop options ''isJobRunnable'') defaultIsJobRunnable),
      (''failureBehavior'', js_or (get_prop options ''failureBehavior'') (JStr ''standard'')),
      (''minimumMillisBetweenAttempts'',
         js_or (get_prop options ''minimumMillisBetweenAttempts'') (JNum 0)),
      (''onStart'', js_or (get_prop options ''onStart'') JNull),
      (''onSuccess'', js_or (get_prop options ''onSuccess'') JNull),
      (''onSkipped'', js_or (get_prop options ''onSkipped'') JNull),
      (''onFailure'', js_or (get_prop options ''onFailure'') JNull),
      (''onFailed'', js_or (get_prop options ''onFailed'') JNull),
      (''onComplete'', js_or (get_prop options ''onComplete'') JNull)]"

text \<open>
  \<^verbatim>\<open>addWorker(jobName, worker, options)\<close>. The worker argument is a function object
  or missing (\<open>None\<close>), as the parameter is documented; the name is falsy when empty.
\<close>

definition addWorker ::
  "world \<Rightarrow> string \<Rightarrow> nat option \<Rightarrow> (string \<times> jsval) list \<Rightarrow> completion \<times> world" where
  "addWorker s jobName worker options =
     (case worker of
        None \<Rightarrow> (Inl missing_args_error, s)
      | Some w \<Rightarrow>
          if jobName = [] then (Inl missing_args_error, s)
          else (Inr JUndefined,
                s\<lparr>fn_options := (fn_options s)(w \<mapsto> resolve_options options),
                  workers := (workers s)(jobName \<mapsto> w)\<rparr>))"

text \<open>\<^verbatim>\<open>removeWorker\<close>: \<^verbatim>\<open>delete\<close> removes an entry and leaves the prototype.\<close>

definition removeWorker :: "world \<Rightarrow> string \<Rightarrow> world" where
  "removeWorker s jobName =
     (if jobName = ''__proto__'' then s else s\<lparr>workers := (workers s)(jobName := None)\<rparr>)"

text \<open>
  \<^verbatim>\<open>getWorkerOptions\<close>, lines 87 to 89: \<^verbatim>\<open>Worker.workers[jobName].options\<close> with no
  check before it.
\<close>

definition getWorkerOptions :: "host \<Rightarrow> world \<Rightarrow> string \<Rightarrow> completion" where
  "getWorkerOptions h s jobName =
     (case worker_at h s jobName of
        Inl e \<Rightarrow> Inl e
      | Inr v \<Rightarrow> js_get s v ''options'')"

text \<open>
  The three accessors, lines 101 to 166: the guard, then
  \<^verbatim>\<open>Worker.workers[jobName].options\<close> and the field.
\<close>

definition guarded_options :: "host \<Rightarrow> world \<Rightarrow> string \<Rightarrow> completion" where
  "guarded_options h s jobName =
     (case worker_at h s jobName of
        Inl e \<Rightarrow> Inl e
      | Inr v \<Rightarrow> if \<not> truthy v then Inl (no_worker_error jobName) else js_get s v ''options'')"

definition getConcurrency :: "host \<Rightarrow> world \<Rightarrow> string \<Rightarrow> completion" where
  "getConcurrency h s jobName =
     (case guarded_options h s jobName of
        Inl e \<Rightarrow> Inl e
      | Inr opts \<Rightarrow> js_get s opts ''concurrency'')"

definition getMinimumMillisBetweenAttempts :: "host \<Rightarrow> world \<Rightarrow> string \<Rightarrow> completion" where
  "getMinimumMillisBetweenAttempts h s jobName =
     (case guarded_options h s jobName of
        Inl e \<Rightarrow> Inl e
      | Inr opts \<Rightarrow>
          (case js_get s opts ''minimumMillisBetweenAttempts'' of
             Inl e \<Rightarrow> Inl e
           | Inr v \<Rightarrow> Inr (parseInt h v)))"

definition getFailureBehavior :: "host \<Rightarrow> world \<Rightarrow> string \<Rightarrow> completion" where
  "getFailureBehavior h s jobName =
     (case guarded_options h s jobName of
        Inl e \<Rightarrow> Inl e
      | Inr opts \<Rightarrow>
          (case js_get s opts ''failureBehavior'' of
             Inl e \<Rightarrow> Inl e
           | Inr v \<Rightarrow> Inr (js_or v JNull)))"

section \<open>Calls, promises and timers\<close>

definition runnable_true :: jsval where
  "runnable_true = JObj [(''runnable'', JBool True)]"

text \<open>Calling a value that is no function throws the engine's \<^verbatim>\<open>TypeError\<close>.\<close>

fun js_call :: "host \<Rightarrow> jsval \<Rightarrow> jsval list \<Rightarrow> completion" where
  "js_call h (JFun (UserFn r)) args = fn_body h r args"
| "js_call h (JFun DefaultIsJobRunnable) args = Inr runnable_true"
| "js_call h _ args = Inl JTypeError"

definition log_call :: "world \<Rightarrow> jsval \<Rightarrow> jsval list \<Rightarrow> world" where
  "log_call s f args = (if is_function f then s\<lparr>invoked := invoked s @ [(f, args)]\<rparr> else s)"

definition log_error :: "world \<Rightarrow> jsval \<Rightarrow> world" where
  "log_error s e = s\<lparr>console := console s @ [e]\<rparr>"

text \<open>
  \<^verbatim>\<open>Promise.resolve(v)\<close>: a promise is taken as it is, an object whose \<^verbatim>\<open>then\<close> is a
  function is followed, any other value is fulfilled now.
\<close>

fun promise_resolve :: "host \<Rightarrow> jsval \<Rightarrow> jsval settlement" where
  "promise_resolve h (JPromise p) = p"
| "promise_resolve h (JObj kvs) =
     (if is_function (get_prop kvs ''then'') then follow_then h kvs else Fulfils 0 (JObj kvs))"
| "promise_resolve h v = Fulfils 0 v"

fun settles_at :: "'a settlement \<Rightarrow> nat option" where
  "settles_at Never = None"
| "settles_at (Fulfils t v) = Some t"
| "settles_at (Rejects t e) = Some t"

text \<open>
  Of two promises the one that settles first; at the same instant the left one, whose
  reaction was registered first.
\<close>

definition first_settled :: "'a settlement \<Rightarrow> 'a settlement \<Rightarrow> 'a settlement" where
  "first_settled p q =
     (case settles_at p of
        None \<Rightarrow> q
      | Some tp \<Rightarrow>
          (case settles_at q of
             None \<Rightarrow> p
           | Some tq \<Rightarrow> if tp \<le> tq then p else q))"

definition promise_race :: "host \<Rightarrow> jsval list \<Rightarrow> jsval settlement" where
  "promise_race h vs = foldr (\<lambda>v acc. first_settled (promise_resolve h v) acc) vs Never"

text \<open>
  \<^verbatim>\<open>await v\<close> as the only suspension of an asynchronous function that then ends:
  the function's own promise is fulfilled with \<^verbatim>\<open>undefined\<close> when \<open>v\<close> is fulfilled,
  rejected with the same value when \<open>v\<close> is rejected, and stays pending while \<open>v\<close> does.
\<close>

definition await_then_return :: "host \<Rightarrow> jsval \<Rightarrow> jsval settlement" where
  "await_then_return h v =
     (case promise_resolve h v of
        Never \<Rightarrow> Never
      | Fulfils t x \<Rightarrow> Fulfils t JUndefined
      | Rejects t e \<Rightarrow> Rejects t e)"

text \<open>
  \<^verbatim>\<open>'' + n\<close> for a number: the decimal form for a safe integer, the host's exponent
  or rounded form beyond.
\<close>

definition number_text :: "host \<Rightarrow> int \<Rightarrow> string" where
  "number_text h n =
     (if - 9007199254740991 \<le> n \<and> n \<le> 9007199254740991 then dec_int n
      else big_number_text h n)"

definition timeout_error :: "host \<Rightarrow> string \<Rightarrow> int \<Rightarrow> jsval" where
  "timeout_error h jobId jobTimeout =
     JError ''Error''
       (''TIMEOUT: Job id: '' @ jobId @ '' timed out in '' @ number_text h jobTimeout @ ''ms.'')"

text \<open>
  \<^verbatim>\<open>setTimeout(f, delay)\<close> keeps the delay in a signed 32-bit integer: as Node
  documents it, a delay above 2147483647 or below 1 is set to 1.
\<close>

definition timer_delay :: "int \<Rightarrow> nat" where
  "timer_delay delay = (if delay < 1 \<or> 2147483647 < delay then 1 else nat delay)"

text \<open>
  Lines 191 to 195: a promise that nothing fulfils and that the timer rejects.
\<close>

definition timeoutPromise :: "host \<Rightarrow> string \<Rightarrow> int \<Rightarrow> jsval" where
  "timeoutPromise h jobId jobTimeout =
     JPromise (Rejects (timer_delay jobTimeout) (timeout_error h jobId jobTimeout))"

section \<open>Running a job\<close>

record job =
  job_id :: string
  job_name :: string
  job_payload :: string
  job_timeout :: int

text \<open>
  \<^verbatim>\<open>execIsJobRunnable(jobName, job)\<close>, lines 118 to 130; \<open>job\<close> is handed to the
  predicate as it comes.
\<close>

definition execIsJobRunnable ::
  "host \<Rightarrow> world \<Rightarrow> string \<Rightarrow> jsval \<Rightarrow> completion \<times> world" where
  "execIsJobRunnable h s jobName job =
     (case guarded_options h s jobName of
        Inl e \<Rightarrow> (Inl e, s)
      | Inr opts \<Rightarrow>
          (case js_get s opts ''isJobRunnable'' of
             Inl e \<Rightarrow> (Inl e, s)
           | Inr isJobRunnable \<Rightarrow>
               if truthy isJobRunnable \<and> is_function isJobRunnable
               then (js_call h isJobRunnable [job], log_call s isJobRunnable [job])
               else (Inr runnable_true, s)))"

text \<open>
  \<^verbatim>\<open>executeJob(job)\<close>, lines 177 to 201. The function is asynchronous: whatever it
  throws before its \<^verbatim>\<open>await\<close> rejects its promise at instant 0. The timer is armed
  on line 192, before the worker is called on line 197.
\<close>

definition executeJob :: "host \<Rightarrow> world \<Rightarrow> job \<Rightarrow> jsval settlement \<times> world" where
  "executeJob h s job =
     (case worker_at h s (job_name job) of
        Inl e \<Rightarrow> (Rejects 0 e, s)
      | Inr worker \<Rightarrow>
          if \<not> truthy worker then (Rejects 0 (no_worker_error (job_name job)), s)
          else
            (let jobId = job_id job; jobTimeout = job_timeout job
             in case JSON_parse h (job_payload job) of
                  Inl e \<Rightarrow> (Rejects 0 e, s)
                | Inr jobPayload \<Rightarrow>
                    (let args = [JStr jobId, jobPayload];
                         s' = log_call s worker args
                     in if jobTimeout > 0
                        then (case js_call h worker args of
                                Inl e \<Rightarrow> (Rejects 0 e, s')
                              | Inr r \<Rightarrow>
                                  (await_then_return h
                                     (JPromise
                                        (promise_race h [timeoutPromise h jobId jobTimeout, r])),
                                   s'))
                        else (case js_call h worker args of
                                Inl e \<Rightarrow> (Rejects 0 e, s')
                              | Inr r \<Rightarrow> (await_then_return h r, s')))))"

section \<open>Lifecycle callbacks\<close>

definition validCallbacks :: "string list" where
  "validCallbacks =
     [''onStart'', ''onSuccess'', ''onSkipped'', ''onFailure'', ''onFailed'', ''onComplete'']"

definition invalid_callback_error :: jsval where
  "invalid_callback_error = JError ''Error'' ''Invalid job lifecycle callback name.''"

text \<open>\<^verbatim>\<open>Worker.workers[jobName].options[callbackName]\<close>, as line 221 reads it.\<close>

definition callback_at :: "host \<Rightarrow> world \<Rightarrow> string \<Rightarrow> string \<Rightarrow> completion" where
  "callback_at h s jobName callbackName =
     (case worker_at h s jobName of
        Inl e \<Rightarrow> Inl e
      | Inr v \<Rightarrow>
          (case js_get s v ''options'' of
             Inl e \<Rightarrow> Inl e
           | Inr opts \<Rightarrow> js_get s opts callbackName))"

text \<open>
  \<^verbatim>\<open>executeJobLifecycleCallback\<close>, lines 212 to 228. The condition of the
  \<^verbatim>\<open>if\<close> on line 221 is outside the \<^verbatim>\<open>try\<close>; the call and its \<^verbatim>\<open>await\<close> are
  inside.
\<close>

definition executeJobLifecycleCallback ::
  "host \<Rightarrow> world \<Rightarrow> string \<Rightarrow> string \<Rightarrow> jsval \<Rightarrow> jsval \<Rightarrow> jsval settlement \<times> world" where
  "executeJobLifecycleCallback h s callbackName jobName jobId jobPayload =
     (if callbackName \<notin> set validCallbacks then (Rejects 0 invalid_callback_error, s)
      else case callback_at h s jobName callbackName of
             Inl e \<Rightarrow> (Rejects 0 e, s)
           | Inr cb \<Rightarrow>
               if truthy cb
               then (let s' = log_call s cb [jobId, jobPayload]
                     in case js_call h cb [jobId, jobPayload] of
                          Inl e \<Rightarrow> (Fulfils 0 JUndefined, log_error s' e)
                        | Inr r \<Rightarrow>
                            (case promise_resolve h r of
                               Never \<Rightarrow> (Never, s')
                             | Fulfils t x \<Rightarrow> (Fulfils t JUndefined, s')
                             | Rejects t e \<Rightarrow> (Fulfils t JUndefined, log_error s' e)))
               else (Fulfils 0 JUndefined, s))"

section \<open>Valid registrations, as the data model describes them\<close>








section \<open>A sample host\<close>

text \<open>
  A host on which the results below are run. Its decoder knows three JSON texts and
  rejects every other text. Function 1 is an asynchronous handler that is done after
  10 ms, 2 never settles, 3 throws, 4 returns a promise rejected after 20 ms, 5 is a
  predicate that holds the job back, 7 returns an object with a \<^verbatim>\<open>then\<close> method, which
  this host finds fulfilled after 5 ms, and any other function returns \<^verbatim>\<open>undefined\<close>
  at once. A name that is not an entry finds the member of \<^verbatim>\<open>Object.prototype\<close> of
  that name, a function object of its own, or nothing. Of \<^verbatim>\<open>parseInt\<close> and of the
  text of large numbers, which no result below is run on, it has only a stand-in.
\<close>

definition sample_parse :: "string \<Rightarrow> completion" where
  "sample_parse text =
     (if text = ''null'' then Inr JNull
      else if text = ''true'' then Inr (JBool True)
      else if text = ''false'' then Inr (JBool False)
      else Inl (JError ''SyntaxError'' ''Unexpected token''))"

definition sample_impl :: "nat \<Rightarrow> jsval list \<Rightarrow> completion" where
  "sample_impl r args =
     (if r = 1 then Inr (JPromise (Fulfils 10 JUndefined))
      else if r = 2 then Inr (JPromise Never)
      else if r = 3 then Inl (JError ''Error'' ''boom'')
      else if r = 4 then Inr (JPromise (Rejects 20 (JError ''Error'' ''late'')))
      else if r = 5 then Inr (JObj [(''runnable'', JBool False), (''reason'', JStr ''paused'')])
      else if r = 7 then Inr (JObj [(''then'', JFun (UserFn 8))])
      else Inr JUndefined)"

definition object_prototype_methods :: "string list" where
  "object_prototype_methods =
     [''constructor'', ''hasOwnProperty'', ''isPrototypeOf'', ''propertyIsEnumerable'',
      ''toLocaleString'', ''toString'', ''valueOf'', ''__defineGetter__'', ''__defineSetter__'',
      ''__lookupGetter__'', ''__lookupSetter__'']"

fun index_of :: "string \<Rightarrow> string list \<Rightarrow> nat" where
  "index_of x [] = 0"
| "index_of x (y # ys) = (if x = y then 0 else Suc (index_of x ys))"

definition sample_inherited :: "world \<Rightarrow> string \<Rightarrow> completion" where
  "sample_inherited s name =
     (if name \<in> set object_prototype_methods
      then Inr (JFun (UserFn (1000 + index_of name object_prototype_methods)))
      else if name = ''__proto__'' then Inr (JObj [])
      else Inr JUndefined)"

definition sample_host :: host where
  "sample_host =
     \<lparr>fn_body = sample_impl,
      JSON_parse = sample_parse,
      parseInt = (\<lambda>v. case v of JNum n \<Rightarrow> JNum n | _ \<Rightarrow> JNaN),
      follow_then = (\<lambda>kvs. Fulfils 5 JUndefined),
      big_number_text = (\<lambda>n. ''1e+21''),
      inherited = sample_inherited\<rparr>"

definition sample_options :: "(string \<times> jsval) list" where
  "sample_options =
     [(''concurrency'', JNum 3), (''isJobRunnable'', JFun (UserFn 5)),
      (''onFailure'', JFun (UserFn 4)), (''onFailed'', JFun (UserFn 3))]"

definition sample_world :: world where
  "sample_world = snd (addWorker init_world ''sendEmail'' (Some 1) sample_options)"


definition sample_job :: "string \<Rightarrow> int \<Rightarrow> job" where
  "sample_job payload ms =
     \<lparr>job_id = ''j1'', job_name = ''sendEmail'', job_payload = payload, job_timeout = ms\<rparr>"

section \<open>Lookups\<close>

lemma sample_host_simps [simp]:
  "fn_body sample_host = sample_impl"
  "JSON_parse sample_host = sample_parse"
  "follow_then sample_host kvs = Fulfils 5 JUndefined"
  "inherited sample_host = sample_inherited"
  by (simp_all add: sample_host_def)

lemma worker_at_entry [simp]:
  "workers s jobName = Some w \<Longrightarrow> worker_at h s jobName = Inr (JFun (UserFn w))"
  by (simp add: worker_at_def)

lemma worker_at_no_entry:
  "workers s jobName = None \<Longrightarrow> worker_at h s jobName = inherited h s jobName"
  by (simp add: worker_at_def)

lemma guarded_options_entry:
  "workers s jobName = Some w \<Longrightarrow>
   guarded_options h s jobName
     = Inr (case fn_options s w of None \<Rightarrow> JUndefined | Some kvs \<Rightarrow> JObj kvs)"
  by (simp add: guarded_options_def split: option.splits)

lemma entry_with_options:
  assumes "workers s jobName = Some w" and "fn_options s w = Some pol"
  shows "getWorkerOptions h s jobName = Inr (JObj pol)"
    and "getConcurrency h s jobName = Inr (get_prop pol ''concurrency'')"
    and "getFailureBehavior h s jobName = Inr (js_or (get_prop pol ''failureBehavior'') JNull)"
    and "getMinimumMillisBetweenAttempts h s jobName
           = Inr (parseInt h (get_prop pol ''minimumMillisBetweenAttempts''))"
    and "callback_at h s jobName k = Inr (get_prop pol k)"
  using assms
  by (simp_all add: getWorkerOptions_def getConcurrency_def getFailureBehavior_def
      getMinimumMillisBetweenAttempts_def callback_at_def guarded_options_entry)

section \<open>Registration\<close>

lemma addWorker_ok:
  "jobName \<noteq> [] \<Longrightarrow>
   addWorker s jobName (Some w) options =
     (Inr JUndefined,
      s\<lparr>fn_options := (fn_options s)(w \<mapsto> resolve_options options),
        workers := (workers s)(jobName \<mapsto> w)\<rparr>)"
  by (simp add: addWorker_def)

lemma addWorker_missing:
  "addWorker s [] worker options = (Inl missing_args_error, s)"
  "addWorker s jobName None options = (Inl missing_args_error, s)"
  by (simp_all add: addWorker_def split: option.splits)



lemma resolve_get:
  "get_prop (resolve_options options) ''concurrency''
     = js_or (get_prop options ''concurrency'') (JNum 1)"
  "get_prop (resolve_options options) ''isJobRunnable''
     = js_or (get_prop options ''isJobRunnable'') defaultIsJobRunnable"
  "get_prop (resolve_options options) ''failureBehavior''
     = js_or (get_prop options ''failureBehavior'') (JStr ''standard'')"
  "get_prop (resolve_options options) ''minimumMillisBetweenAttempts''
     = js_or (get_prop options ''minimumMillisBetweenAttempts'') (JNum 0)"
  "get_prop (resolve_options options) ''onStart'' = js_or (get_prop options ''onStart'') JNull"
  "get_prop (resolve_options options) ''onSuccess'' = js_or (get_prop options ''onSuccess'') JNull"
  "get_prop (resolve_options options) ''onSkipped'' = js_or (get_prop options ''onSkipped'') JNull"
  "get_prop (resolve_options options) ''onFailure'' = js_or (get_prop options ''onFailure'') JNull"
  "get_prop (resolve_options options) ''onFailed'' = js_or (get_prop options ''onFailed'') JNull"
  "get_prop (resolve_options options) ''onComplete'' = js_or (get_prop options ''onComplete'') JNull"
  by (simp_all add: resolve_options_def get_prop_def)








lemma sample_world_worker: "workers sample_world ''sendEmail'' = Some 1"
  by (simp add: sample_world_def addWorker_ok)

lemma sample_world_options:
  "fn_options sample_world 1 = Some (resolve_options sample_options)"
  by (simp add: sample_world_def addWorker_ok)


lemma sample_world_quiet: "console sample_world = []" "invoked sample_world = []"
  by (simp_all add: sample_world_def addWorker_ok init_world_def)

lemma sample_policy:
  "get_prop (resolve_options sample_options) ''concurrency'' = JNum 3"
  "get_prop (resolve_options sample_options) ''isJobRunnable'' = JFun (UserFn 5)"
  "get_prop (resolve_options sample_options) ''onFailure'' = JFun (UserFn 4)"
  "get_prop (resolve_options sample_options) ''onFailed'' = JFun (UserFn 3)"
  unfolding resolve_get by (simp_all add: sample_options_def get_prop_def js_or_def)






section \<open>Names that are not registered\<close>

text \<open>
  When a read of the name finds nothing, every operation that checks first throws the
  same error; \<^verbatim>\<open>getWorkerOptions\<close> and \<^verbatim>\<open>executeJobLifecycleCallback\<close> have no
  such check and fail inside the property read.
\<close>

lemma nothing_found:
  assumes "worker_at h s jobName = Inr JUndefined" and "job_name j = jobName"
  shows "getConcurrency h s jobName = Inl (no_worker_error jobName)"
    and "getFailureBehavior h s jobName = Inl (no_worker_error jobName)"
    and "getMinimumMillisBetweenAttempts h s jobName = Inl (no_worker_error jobName)"
    and "execIsJobRunnable h s jobName job = (Inl (no_worker_error jobName), s)"
    and "executeJob h s j = (Rejects 0 (no_worker_error jobName), s)"
    and "getWorkerOptions h s jobName = Inl JTypeError"
    and "callbackName \<in> set validCallbacks \<Longrightarrow>
         executeJobLifecycleCallback h s callbackName jobName jobId jobPayload
           = (Rejects 0 JTypeError, s)"
  using assms
  by (simp_all add: getConcurrency_def getFailureBehavior_def
      getMinimumMillisBetweenAttempts_def execIsJobRunnable_def executeJob_def
      getWorkerOptions_def guarded_options_def executeJobLifecycleCallback_def callback_at_def)

text \<open>
  A name that is not registered but finds a member of the prototype, such as
  \<^verbatim>\<open>toString\<close>, passes the check: \<^verbatim>\<open>getWorkerOptions\<close> then returns
  \<^verbatim>\<open>undefined\<close> and the accessors fail inside the property read.
\<close>

lemma member_found:
  assumes "workers s jobName = None" and "inherited h s jobName = Inr (JFun (UserFn r))"
    and "fn_options s r = None"
  shows "getWorkerOptions h s jobName = Inr JUndefined"
    and "getConcurrency h s jobName = Inl JTypeError"
    and "getFailureBehavior h s jobName = Inl JTypeError"
    and "getMinimumMillisBetweenAttempts h s jobName = Inl JTypeError"
  using assms
  by (simp_all add: getWorkerOptions_def getConcurrency_def getFailureBehavior_def
      getMinimumMillisBetweenAttempts_def guarded_options_def worker_at_no_entry)

lemma removeWorker_gone:
  "jobName \<noteq> ''__proto__'' \<Longrightarrow> workers (removeWorker s jobName) jobName = None"
  by (simp add: removeWorker_def)

lemma sample_nothing: "worker_at sample_host init_world ''ghost'' = Inr JUndefined"
  by (simp add: worker_at_def init_world_def sample_inherited_def object_prototype_methods_def)

text \<open>
  C2. For a name that is not registered the three accessors throw the error
  \<^verbatim>\<open>Job ... does not have a worker assigned to it.\<close>; \<^verbatim>\<open>getWorkerOptions\<close> throws
  too, but a \<^verbatim>\<open>TypeError\<close> of the engine and not that error. Here on the empty
  registry and the name \<^verbatim>\<open>ghost\<close>.
\<close>

theorem getWorkerOptions_unregistered:
  "getWorkerOptions sample_host init_world ''ghost'' = Inl JTypeError \<and>
   getConcurrency sample_host init_world ''ghost''
     = Inl (JError ''Error'' ''Job ghost does not have a worker assigned to it.'') \<and>
   getFailureBehavior sample_host init_world ''ghost''
     = Inl (JError ''Error'' ''Job ghost does not have a worker assigned to it.'') \<and>
   getMinimumMillisBetweenAttempts sample_host init_world ''ghost''
     = Inl (JError ''Error'' ''Job ghost does not have a worker assigned to it.'')"
  by (simp add: getWorkerOptions_def getConcurrency_def getFailureBehavior_def
      getMinimumMillisBetweenAttempts_def guarded_options_def sample_nothing no_worker_error_def)

lemma getWorkerOptions_toString:
  "getWorkerOptions sample_host init_world ''toString'' = Inr JUndefined"
  "getConcurrency sample_host init_world ''toString'' = Inl JTypeError"
  by (simp_all add: getWorkerOptions_def getConcurrency_def guarded_options_def worker_at_def
      init_world_def sample_inherited_def object_prototype_methods_def)

section \<open>The timeout race and the payload\<close>



lemma executeJob_untimed:
  assumes "workers s (job_name job) = Some w" and "job_timeout job \<le> 0"
    and "JSON_parse h (job_payload job) = Inr p"
  shows "executeJob h s job =
     ((case fn_body h w [JStr (job_id job), p] of
         Inl e \<Rightarrow> Rejects 0 e
       | Inr r \<Rightarrow> await_then_return h r),
      log_call s (JFun (UserFn w)) [JStr (job_id job), p])"
  using assms by (simp add: executeJob_def Let_def split: sum.splits)




lemma sample_job_simps [simp]:
  "job_id (sample_job payload ms) = ''j1''"
  "job_name (sample_job payload ms) = ''sendEmail''"
  "job_payload (sample_job payload ms) = payload"
  "job_timeout (sample_job payload ms) = ms"
  by (simp_all add: sample_job_def)




text \<open>
  C4. For a job whose name is registered and whose payload the decoder rejects, the
  call rejects at once with the decoder's error; nothing else changes, so the worker is
  not called.
\<close>

theorem executeJob_bad_payload:
  assumes "workers s (job_name job) = Some w" and "JSON_parse h (job_payload job) = Inl e"
  shows "executeJob h s job = (Rejects 0 e, s) \<and>
    invoked (snd (executeJob h s job)) = invoked s"
  using assms by (simp add: executeJob_def)

theorem executeJob_bad_payload_witness:
  "workers sample_world (job_name (sample_job ''{oops'' 50)) = Some 1 \<and>
   JSON_parse sample_host (job_payload (sample_job ''{oops'' 50))
     = Inl (JError ''SyntaxError'' ''Unexpected token'') \<and>
   fst (executeJob sample_host sample_world (sample_job ''{oops'' 50))
     = Rejects 0 (JError ''SyntaxError'' ''Unexpected token'') \<and>
   invoked (snd (executeJob sample_host sample_world (sample_job ''{oops'' 50))) = []"
proof -
  have reg: "workers sample_world (job_name (sample_job ''{oops'' 50)) = Some 1"
    by (simp add: sample_world_worker)
  have bad: "JSON_parse sample_host (job_payload (sample_job ''{oops'' 50))
     = Inl (JError ''SyntaxError'' ''Unexpected token'')"
    by (simp add: sample_parse_def)
  from executeJob_bad_payload[OF reg bad] sample_world_quiet(2)
  have "fst (executeJob sample_host sample_world (sample_job ''{oops'' 50))
     = Rejects 0 (JError ''SyntaxError'' ''Unexpected token'') \<and>
   invoked (snd (executeJob sample_host sample_world (sample_job ''{oops'' 50))) = []"
    by simp
  with reg bad show ?thesis by simp
qed

section \<open>Runnability and lifecycle callbacks\<close>



lemma lifecycle_configured:
  assumes "callbackName \<in> set validCallbacks" and "workers s jobName = Some w"
    and "fn_options s w = Some pol" and "truthy (get_prop pol callbackName)"
  shows "executeJobLifecycleCallback h s callbackName jobName jobId jobPayload =
     (let cb = get_prop pol callbackName;
          s' = log_call s cb [jobId, jobPayload]
      in case js_call h cb [jobId, jobPayload] of
           Inl e \<Rightarrow> (Fulfils 0 JUndefined, log_error s' e)
         | Inr r \<Rightarrow>
             (case promise_resolve h r of
                Never \<Rightarrow> (Never, s')
              | Fulfils t x \<Rightarrow> (Fulfils t JUndefined, s')
              | Rejects t e \<Rightarrow> (Fulfils t JUndefined, log_error s' e)))"
  using assms(1,4)
  by (simp add: executeJobLifecycleCallback_def entry_with_options(5)[OF assms(2,3)] Let_def)

text \<open>
  C5. For a registered worker whose policy holds a callback under one of the six
  names, a dispatch under that name resolves with no value when the callback throws
  and when the promise it returns is rejected; the error goes to \<^verbatim>\<open>console.error\<close>
  and nowhere else.
\<close>

theorem lifecycle_callback_error_contained:
  assumes "callbackName \<in> set validCallbacks" and "workers s jobName = Some w"
    and "fn_options s w = Some pol" and "truthy (get_prop pol callbackName)"
  shows
   "(\<forall>e. js_call h (get_prop pol callbackName) [jobId, jobPayload] = Inl e \<longrightarrow>
       fst (executeJobLifecycleCallback h s callbackName jobName jobId jobPayload)
         = Fulfils 0 JUndefined \<and>
       console (snd (executeJobLifecycleCallback h s callbackName jobName jobId jobPayload))
         = console s @ [e]) \<and>
    (\<forall>t e. js_call h (get_prop pol callbackName) [jobId, jobPayload]
           = Inr (JPromise (Rejects t e)) \<longrightarrow>
       fst (executeJobLifecycleCallback h s callbackName jobName jobId jobPayload)
         = Fulfils t JUndefined \<and>
       console (snd (executeJobLifecycleCallback h s callbackName jobName jobId jobPayload))
         = console s @ [e])"
  by (simp add: lifecycle_configured[OF assms] Let_def log_error_def log_call_def)

theorem lifecycle_callback_error_contained_witness:
  "''onFailed'' \<in> set validCallbacks \<and> ''onFailure'' \<in> set validCallbacks \<and>
   workers sample_world ''sendEmail'' = Some 1 \<and>
   fn_options sample_world 1 = Some (resolve_options sample_options) \<and>
   truthy (get_prop (resolve_options sample_options) ''onFailed'') \<and>
   truthy (get_prop (resolve_options sample_options) ''onFailure'') \<and>
   fst (executeJobLifecycleCallback sample_host sample_world ''onFailed'' ''sendEmail''
          (JStr ''j1'') JNull) = Fulfils 0 JUndefined \<and>
   console (snd (executeJobLifecycleCallback sample_host sample_world ''onFailed'' ''sendEmail''
          (JStr ''j1'') JNull)) = [JError ''Error'' ''boom''] \<and>
   fst (executeJobLifecycleCallback sample_host sample_world ''onFailure'' ''sendEmail''
          (JStr ''j1'') JNull) = Fulfils 20 JUndefined \<and>
   console (snd (executeJobLifecycleCallback sample_host sample_world ''onFailure'' ''sendEmail''
          (JStr ''j1'') JNull)) = [JError ''Error'' ''late'']"
proof -
  have v1: "''onFailed'' \<in> set validCallbacks" and v2: "''onFailure'' \<in> set validCallbacks"
    by (simp_all add: validCallbacks_def)
  have c1: "truthy (get_prop (resolve_options sample_options) ''onFailed'')"
    and c2: "truthy (get_prop (resolve_options sample_options) ''onFailure'')"
    by (simp_all add: sample_policy)
  have throws: "js_call sample_host (get_prop (resolve_options sample_options) ''onFailed'')
       [JStr ''j1'', JNull] = Inl (JError ''Error'' ''boom'')"
    by (simp add: sample_policy sample_impl_def)
  have rejects: "js_call sample_host (get_prop (resolve_options sample_options) ''onFailure'')
       [JStr ''j1'', JNull] = Inr (JPromise (Rejects 20 (JError ''Error'' ''late'')))"
    by (simp add: sample_policy sample_impl_def)
  note t1 = lifecycle_callback_error_contained[where h = sample_host and jobId = "JStr ''j1''"
      and jobPayload = JNull, OF v1 sample_world_worker sample_world_options c1]
  note t2 = lifecycle_callback_error_contained[where h = sample_host and jobId = "JStr ''j1''"
      and jobPayload = JNull, OF v2 sample_world_worker sample_world_options c2]
  from t1 throws sample_world_quiet(1)
  have a: "fst (executeJobLifecycleCallback sample_host sample_world ''onFailed'' ''sendEmail''
          (JStr ''j1'') JNull) = Fulfils 0 JUndefined \<and>
   console (snd (executeJobLifecycleCallback sample_host sample_world ''onFailed'' ''sendEmail''
          (JStr ''j1'') JNull)) = [JError ''Error'' ''boom'']"
    by simp
  from t2 rejects sample_world_quiet(1)
  have b: "fst (executeJobLifecycleCallback sample_host sample_world ''onFailure'' ''sendEmail''
          (JStr ''j1'') JNull) = Fulfils 20 JUndefined \<and>
   console (snd (executeJobLifecycleCallback sample_host sample_world ''onFailure'' ''sendEmail''
          (JStr ''j1'') JNull)) = [JError ''Error'' ''late'']"
    by simp
  from v1 v2 sample_world_worker sample_world_options c1 c2 a b show ?thesis by simp
qed

text \<open>
  C9. A dispatch under a name that is none of the six lifecycle names rejects with
  the error \<^verbatim>\<open>Invalid job lifecycle callback name.\<close> and changes nothing, whatever the
  other arguments and the registry are.
\<close>

theorem invalid_callback_name_rejected:
  assumes "callbackName \<notin> set [''onStart'', ''onSuccess'', ''onSkipped'', ''onFailure'',
            ''onFailed'', ''onComplete'']"
  shows "executeJobLifecycleCallback h s callbackName jobName jobId jobPayload
     = (Rejects 0 (JError ''Error'' ''Invalid job lifecycle callback name.''), s)"
  using assms
  by (simp add: executeJobLifecycleCallback_def validCallbacks_def invalid_callback_error_def)

theorem invalid_callback_name_rejected_witness:
  "''bogus'' \<notin> set [''onStart'', ''onSuccess'', ''onSkipped'', ''onFailure'',
            ''onFailed'', ''onComplete''] \<and>
   fst (executeJobLifecycleCallback sample_host sample_world ''bogus'' ''sendEmail''
          (JStr ''j1'') JNull)
     = Rejects 0 (JError ''Error'' ''Invalid job lifecycle callback name.'')"
proof -
  have bogus: "''bogus'' \<notin> set [''onStart'', ''onSuccess'', ''onSkipped'', ''onFailure'',
            ''onFailed'', ''onComplete'']"
    by simp
  from invalid_callback_name_rejected[OF bogus, of sample_host sample_world "''sendEmail''"
      "JStr ''j1''" JNull] bogus
  show ?thesis by simp
qed

text \<open>
  C3. A dispatch under a valid lifecycle name for a job name that is not registered
  rejects, but with the engine's \<^verbatim>\<open>TypeError\<close> from the property read on line 221
  and not with the error \<^verbatim>\<open>Job ... does not have a worker assigned to it.\<close> that
  \<^verbatim>\<open>executeJob\<close> gives for the same name. Here on the empty registry and the name
  \<^verbatim>\<open>ghost\<close>.
\<close>

theorem lifecycle_callback_unregistered:
  "fst (executeJobLifecycleCallback sample_host init_world ''onStart'' ''ghost'' (JStr ''j1'') JNull)
     = Rejects 0 JTypeError \<and>
   fst (executeJob sample_host init_world
          \<lparr>job_id = ''j1'', job_name = ''ghost'', job_payload = ''null'', job_timeout = 0\<rparr>)
     = Rejects 0 (JError ''Error'' ''Job ghost does not have a worker assigned to it.'')"
  by (simp add: executeJobLifecycleCallback_def callback_at_def executeJob_def validCallbacks_def
      sample_nothing no_worker_error_def)

end
